theory Spec2Isabelle
  imports Main "HOL-Library.List_Lexorder" "HOL-Library.Char_ord" "HOL-Library.Multiset"
begin

section \<open>Concrete module types: data model\<close>

text \<open>
  The development follows \<^verbatim>\<open>torch/csrc/jit/script/concrete_module_type.h\<close> and
  \<^verbatim>\<open>concrete_module_type.cpp\<close>.

  A \<^verbatim>\<open>py::object\<close> is a counted reference to a Python object; \<^verbatim>\<open>a.is(b)\<close> compares the
  two references. It is modelled by the identity of the object, a natural number.
  A \<^verbatim>\<open>ClassTypePtr\<close> is likewise the address of the class type object it points to.

  The JIT type system (\<^verbatim>\<open>Type\<close>, \<^verbatim>\<open>TypePtr\<close>) is declared in other headers. A type
  is a value of the type variable \<open>'ty\<close>, HOL equality on \<open>'ty\<close> stands for the virtual
  \<^verbatim>\<open>Type::operator==\<close>, and the casts and helpers the code calls
  (\<^verbatim>\<open>cast<FunctionType>\<close>, \<^verbatim>\<open>unshapedType\<close>, ...) are parameters of the functions that
  call them. A \<^verbatim>\<open>TypePtr\<close> that may be null is a \<open>'ty option\<close>.
\<close>

type_synonym pyobj = nat
type_synonym addr = nat

datatype IterableModuleKind = NONE | LIST | DICT

text \<open>
  The two ways an operation of this file ends without a result:
  \<^verbatim>\<open>throw py::error_already_set()\<close> and a failed \<^verbatim>\<open>TORCH_INTERNAL_ASSERT\<close>.
\<close>

datatype error = error_already_set | internal_assert

text \<open>\<^verbatim>\<open>struct Constant { py::object v_; }\<close> is the reference itself.\<close>

type_synonym Constant = pyobj

datatype 'ty Attribute = Attribute (attr_type: 'ty) (isParam: bool)

datatype 'ty FunctionAttribute = FunctionAttribute (fn_type: 'ty) (pyFunction: pyobj)

text \<open>
  \<^verbatim>\<open>ConcreteModuleTypeData\<close>, \<^verbatim>\<open>ModuleInfo\<close> and \<^verbatim>\<open>ConcreteModuleType\<close> refer to each other:
  a descriptor holds a vector of module entries, an entry holds a shared pointer to a
  finalized type (or null) and an interface type (or null), a finalized type holds a
  descriptor and the pointer to its class type.

  A \<^verbatim>\<open>std::unordered_map<std::string, V>\<close> is an association list; the order of the
  list is the (unspecified) iteration order of the table, and a well-formed table has
  each key once (\<open>unique_keys\<close> below).
\<close>

datatype 'ty ConcreteModuleTypeData = ConcreteModuleTypeData
    (isPoisoned: bool)
    (constants: "(string \<times> Constant) list")
    (attributes: "(string \<times> 'ty Attribute) list")
    (overloads: "(string \<times> string list) list")
    (failedAttributes: "(string \<times> string) list")
    (functionAttributes: "(string \<times> 'ty FunctionAttribute) list")
    (modules: "'ty ModuleInfo list")
    (iterableModuleKind: IterableModuleKind)
    (pyClass: pyobj)
and 'ty ModuleInfo = ModuleInfo
    (name: string)
    (meta: "'ty ConcreteModuleType option")
    (mod_type: "'ty option")
and 'ty ConcreteModuleType = ConcreteModuleType
    (data: "'ty ConcreteModuleTypeData")
    (jitType: addr)

type_synonym 'ty RawConcreteModuleType = "'ty ConcreteModuleTypeData"

definition unique_keys :: "'ty ConcreteModuleTypeData \<Rightarrow> bool" where
  "unique_keys d \<longleftrightarrow>
     distinct (map fst (constants d)) \<and>
     distinct (map fst (attributes d)) \<and>
     distinct (map fst (overloads d)) \<and>
     distinct (map fst (failedAttributes d)) \<and>
     distinct (map fst (functionAttributes d))"

section \<open>The equality engine\<close>

text \<open>
  A comparison returns \<open>Inr b\<close> for the boolean \<open>b\<close>, or \<open>Inl e\<close> when it throws.
  \<open>andalso\<close> is the short-circuit \<^verbatim>\<open>&&\<close>: the right operand counts only when the
  left one is true.
\<close>

fun andalso :: "error + bool \<Rightarrow> error + bool \<Rightarrow> error + bool" where
  "andalso (Inl e) r = Inl e"
| "andalso (Inr False) r = Inr False"
| "andalso (Inr True) r = r"

text \<open>
  \<^verbatim>\<open>Constant::operator==\<close>. The parameter \<open>rich\<close> is
  \<^verbatim>\<open>PyObject_RichCompareBool(a, b, Py_EQ)\<close>: 1 for equal, 0 for different, -1 when the
  Python comparison raised.
\<close>

definition Constant_eq :: "(pyobj \<Rightarrow> pyobj \<Rightarrow> int) \<Rightarrow> Constant \<Rightarrow> Constant \<Rightarrow> error + bool" where
  "Constant_eq rich lhs rhs =
     (let rv = rich lhs rhs
      in if rv = - 1 then Inl error_already_set else Inr (rv = 1))"

definition FunctionAttribute_eq :: "'ty FunctionAttribute \<Rightarrow> 'ty FunctionAttribute \<Rightarrow> bool" where
  "FunctionAttribute_eq lhs rhs \<longleftrightarrow> pyFunction lhs = pyFunction rhs"

definition Attribute_eq :: "'ty Attribute \<Rightarrow> 'ty Attribute \<Rightarrow> bool" where
  "Attribute_eq lhs rhs \<longleftrightarrow> attr_type lhs = attr_type rhs \<and> isParam lhs = isParam rhs"

text \<open>
  \<^verbatim>\<open>operator==\<close> of \<^verbatim>\<open>std::unordered_map\<close>: the sizes are compared first; then every
  entry of the left table is looked up in the right one and the two entries are
  compared with the \<^verbatim>\<open>operator==\<close> of the mapped type. The first difference ends the
  walk. The library (libstdc++, \<^verbatim>\<open>_Equality::_M_equal\<close>) writes the comparison as
  \<^verbatim>\<open>*ity == *itx\<close>, with \<^verbatim>\<open>itx\<close> the entry of the left table and \<^verbatim>\<open>ity\<close> the entry found in
  the right table: the value of the right table is the left operand. For constants
  this is the Python comparison \<open>rich w v\<close> of the right value \<open>w\<close> with the left value
  \<open>v\<close>. The walk follows the iteration order of the left table, which is the order of
  the list.
\<close>

fun unordered_map_eq_loop ::
  "('v \<Rightarrow> 'v \<Rightarrow> error + bool) \<Rightarrow> (string \<times> 'v) list \<Rightarrow> (string \<times> 'v) list \<Rightarrow> error + bool" where
  "unordered_map_eq_loop eq [] other = Inr True"
| "unordered_map_eq_loop eq ((k, v) # rest) other =
     (case map_of other k of
        None \<Rightarrow> Inr False
      | Some w \<Rightarrow>
          (case eq w v of
             Inl e \<Rightarrow> Inl e
           | Inr False \<Rightarrow> Inr False
           | Inr True \<Rightarrow> unordered_map_eq_loop eq rest other))"

definition unordered_map_eq ::
  "('v \<Rightarrow> 'v \<Rightarrow> error + bool) \<Rightarrow> (string \<times> 'v) list \<Rightarrow> (string \<times> 'v) list \<Rightarrow> error + bool" where
  "unordered_map_eq eq this other =
     (if length this \<noteq> length other then Inr False
      else unordered_map_eq_loop eq this other)"

text \<open>
  \<^verbatim>\<open>operator==\<close> of \<^verbatim>\<open>std::vector\<close>: equal sizes, then \<^verbatim>\<open>std::equal\<close> from the front.
\<close>

fun std_equal :: "('a \<Rightarrow> 'a \<Rightarrow> error + bool) \<Rightarrow> 'a list \<Rightarrow> 'a list \<Rightarrow> error + bool" where
  "std_equal eq (x # xs) (y # ys) =
     (case eq x y of
        Inl e \<Rightarrow> Inl e
      | Inr False \<Rightarrow> Inr False
      | Inr True \<Rightarrow> std_equal eq xs ys)"
| "std_equal eq _ _ = Inr True"

definition vector_eq :: "('a \<Rightarrow> 'a \<Rightarrow> error + bool) \<Rightarrow> 'a list \<Rightarrow> 'a list \<Rightarrow> error + bool" where
  "vector_eq eq xs ys =
     (if length xs \<noteq> length ys then Inr False else std_equal eq xs ys)"

lemma std_equal_cong [fundef_cong]:
  "xs = xs' \<Longrightarrow> ys = ys' \<Longrightarrow>
   (\<And>x y. x \<in> set xs' \<Longrightarrow> y \<in> set ys' \<Longrightarrow> f x y = g x y) \<Longrightarrow>
   std_equal f xs ys = std_equal g xs' ys'"
proof (induction g xs' ys' arbitrary: xs ys rule: std_equal.induct)
  case (1 eq x xs y ys)
  then show ?case by (auto split: sum.splits bool.splits)
qed simp_all

lemma vector_eq_cong [fundef_cong]:
  "xs = xs' \<Longrightarrow> ys = ys' \<Longrightarrow>
   (\<And>x y. x \<in> set xs' \<Longrightarrow> y \<in> set ys' \<Longrightarrow> f x y = g x y) \<Longrightarrow>
   vector_eq f xs ys = vector_eq g xs' ys'"
  unfolding vector_eq_def using std_equal_cong [of xs xs' ys ys' f g] by simp

text \<open>
  \<^verbatim>\<open>std::sort\<close> with the comparator \<^verbatim>\<open>a.name_ < b.name_\<close> (byte-wise lexicographic order
  of \<^verbatim>\<open>std::string\<close>). The standard leaves the relative order of entries with equal
  names open. The model is the insertion sort that the library runs alone on ranges of
  at most 16 entries, which keeps entries of equal names in the order it found them. On
  longer ranges the library partitions first and entries of equal names may end in
  another order; entries of pairwise different names end in the same order under every
  sorting algorithm (\<open>std_sort_permutation\<close> below). The results that rest on \<open>std_sort\<close>
  are about vectors of pairwise different names or of at most two entries.
\<close>

fun insert_by_name :: "'ty ModuleInfo \<Rightarrow> 'ty ModuleInfo list \<Rightarrow> 'ty ModuleInfo list" where
  "insert_by_name a [] = [a]"
| "insert_by_name a (b # bs) =
     (if name b < name a then b # insert_by_name a bs else a # b # bs)"

fun std_sort :: "'ty ModuleInfo list \<Rightarrow> 'ty ModuleInfo list" where
  "std_sort [] = []"
| "std_sort (a # as) = insert_by_name a (std_sort as)"

lemma set_insert_by_name [simp]: "set (insert_by_name a bs) = insert a (set bs)"
  by (induction bs) auto

lemma set_std_sort [simp]: "set (std_sort xs) = set xs"
  by (induction xs) auto

lemma size_in_modules: "x \<in> set (modules d) \<Longrightarrow> size x < size d"
proof (cases d)
  case (ConcreteModuleTypeData p c a ov fa fu ms k cl)
  assume "x \<in> set (modules d)"
  with ConcreteModuleTypeData have "x \<in> set ms" by simp
  then have "size x \<le> size_list size ms"
    by (induction ms) auto
  with ConcreteModuleTypeData show ?thesis by simp
qed

lemma size_of_meta: "meta m = Some t \<Longrightarrow> size t < size m"
  by (cases m) simp

lemma size_of_data: "size (data t) < size t"
  by (cases t) simp

text \<open>
  The three comparisons call each other:
  \<^item> \<open>data_eq\<close> is \<^verbatim>\<open>operator==(ConcreteModuleTypeData, ConcreteModuleTypeData)\<close>;
  \<^item> \<open>ModuleInfo_eq\<close> is \<^verbatim>\<open>operator==(ModuleInfo, ModuleInfo)\<close>;
  \<^item> \<open>equals\<close> is \<^verbatim>\<open>ConcreteModuleType::equals\<close>.
\<close>

function data_eq ::
    "(pyobj \<Rightarrow> pyobj \<Rightarrow> int) \<Rightarrow> 'ty ConcreteModuleTypeData \<Rightarrow> 'ty ConcreteModuleTypeData \<Rightarrow> error + bool"
  and ModuleInfo_eq ::
    "(pyobj \<Rightarrow> pyobj \<Rightarrow> int) \<Rightarrow> 'ty ModuleInfo \<Rightarrow> 'ty ModuleInfo \<Rightarrow> error + bool"
  and equals ::
    "(pyobj \<Rightarrow> pyobj \<Rightarrow> int) \<Rightarrow> 'ty ConcreteModuleType \<Rightarrow> 'ty ConcreteModuleType \<Rightarrow> error + bool"
where
  "data_eq rich lhs rhs =
     (if isPoisoned lhs \<or> isPoisoned rhs then Inr False
      else
        (case
           andalso (Inr (pyClass lhs = pyClass rhs))
          (andalso (Inr (iterableModuleKind lhs = iterableModuleKind rhs))
          (andalso (unordered_map_eq (Constant_eq rich) (constants lhs) (constants rhs))
          (andalso (unordered_map_eq (\<lambda>a b. Inr (Attribute_eq a b)) (attributes lhs) (attributes rhs))
          (andalso (unordered_map_eq (\<lambda>a b. Inr (a = b)) (overloads lhs) (overloads rhs))
                   (unordered_map_eq (\<lambda>a b. Inr (FunctionAttribute_eq a b))
                      (functionAttributes lhs) (functionAttributes rhs))))))
         of
           Inl e \<Rightarrow> Inl e
         | Inr False \<Rightarrow> Inr False
         | Inr True \<Rightarrow>
             vector_eq (ModuleInfo_eq rich) (std_sort (modules lhs)) (std_sort (modules rhs))))"
| "ModuleInfo_eq rich lhs rhs =
     (case (meta lhs, meta rhs) of
        (Some l, Some r) \<Rightarrow> equals rich l r
      | _ \<Rightarrow>
         (case (mod_type lhs, mod_type rhs) of
            (Some s, Some t) \<Rightarrow> Inr (s = t)
          | _ \<Rightarrow> Inr False))"
| "equals rich this other =
     (if jitType this = jitType other then Inr True
      else data_eq rich (data this) (data other))"
  by pat_completeness auto
termination
proof (relation "measure (\<lambda>x. case x of
      Inl (_, lhs, _) \<Rightarrow> 3 * size lhs + 2
    | Inr (Inl (_, lhs, _)) \<Rightarrow> 3 * size lhs + 1
    | Inr (Inr (_, this, _)) \<Rightarrow> 3 * size this)", goal_cases)
  case 1
  show ?case by simp
next
  case (2 rich lhs rhs b x y)
  then show ?case using size_in_modules [of x lhs] by simp
next
  case (3 rich lhs rhs x y l r)
  then show ?case using size_of_meta [of lhs l] by simp
next
  case (4 rich this other)
  then show ?case using size_of_data [of this] by simp
qed

declare data_eq.simps [simp del] ModuleInfo_eq.simps [simp del] equals.simps [simp del]

text \<open>
  \<^verbatim>\<open>RawConcreteModuleType::equals\<close>, on another builder and on a finalized type: both
  are \<^verbatim>\<open>data_ == other.data_\<close>.
\<close>

definition RawConcreteModuleType_equals ::
  "(pyobj \<Rightarrow> pyobj \<Rightarrow> int) \<Rightarrow> 'ty RawConcreteModuleType \<Rightarrow> 'ty RawConcreteModuleType \<Rightarrow> error + bool" where
  "RawConcreteModuleType_equals rich this other = data_eq rich this other"

definition RawConcreteModuleType_equals_finalized ::
  "(pyobj \<Rightarrow> pyobj \<Rightarrow> int) \<Rightarrow> 'ty RawConcreteModuleType \<Rightarrow> 'ty ConcreteModuleType \<Rightarrow> error + bool" where
  "RawConcreteModuleType_equals_finalized rich this other = data_eq rich this (data other)"

text \<open>
  A comparison as a step on the two live descriptors. \<^verbatim>\<open>operator==\<close> takes both by
  reference to const, copies the two \<^verbatim>\<open>modules_\<close> vectors into the locals \<^verbatim>\<open>lhsSorted\<close> and
  \<^verbatim>\<open>rhsSorted\<close> and sorts the copies; the step returns the descriptors as it found them.
\<close>

definition equals_step ::
  "(pyobj \<Rightarrow> pyobj \<Rightarrow> int) \<Rightarrow> 'ty RawConcreteModuleType \<times> 'ty RawConcreteModuleType
     \<Rightarrow> (error + bool) \<times> ('ty RawConcreteModuleType \<times> 'ty RawConcreteModuleType)" where
  "equals_step rich s = (RawConcreteModuleType_equals rich (fst s) (snd s), s)"

section \<open>The builder\<close>

text \<open>
  \<^verbatim>\<open>RawConcreteModuleType\<close> wraps one descriptor, \<^verbatim>\<open>data_\<close>; the builder is modelled by
  that descriptor, and every setter returns the descriptor it leaves behind. The
  constructor stores the class; the other members keep their default initialisers.
\<close>

definition RawConcreteModuleType :: "pyobj \<Rightarrow> 'ty RawConcreteModuleType" where
  "RawConcreteModuleType pyClass' = ConcreteModuleTypeData False [] [] [] [] [] [] NONE pyClass'"

text \<open>
  \<^verbatim>\<open>std::unordered_map::emplace\<close>: the entry is inserted only when the table has no entry
  with that key. Where the new entry stands in the iteration order depends on the hash
  of its key: the table links it at the front of its node list when the bucket of the
  key is empty, and at the head of that bucket otherwise. The model takes the first
  case, so a table filled by the setters iterates from the newest entry to the oldest.
  The results on the setters do not depend on the position: they look entries up by
  key. The results on comparisons are stated for tables in any order.
\<close>

definition emplace :: "string \<Rightarrow> 'v \<Rightarrow> (string \<times> 'v) list \<Rightarrow> (string \<times> 'v) list" where
  "emplace k v m = (case map_of m k of None \<Rightarrow> (k, v) # m | Some _ \<Rightarrow> m)"

definition setIterableModuleKind ::
  "'ty RawConcreteModuleType \<Rightarrow> IterableModuleKind \<Rightarrow> 'ty RawConcreteModuleType" where
  "setIterableModuleKind d kind =
     ConcreteModuleTypeData (isPoisoned d) (constants d) (attributes d) (overloads d)
       (failedAttributes d) (functionAttributes d) (modules d) kind (pyClass d)"

definition setPoisoned :: "'ty RawConcreteModuleType \<Rightarrow> 'ty RawConcreteModuleType" where
  "setPoisoned d =
     ConcreteModuleTypeData True (constants d) (attributes d) (overloads d)
       (failedAttributes d) (functionAttributes d) (modules d) (iterableModuleKind d) (pyClass d)"

definition addConstant ::
  "'ty RawConcreteModuleType \<Rightarrow> string \<Rightarrow> pyobj \<Rightarrow> 'ty RawConcreteModuleType" where
  "addConstant d name' value =
     ConcreteModuleTypeData (isPoisoned d) (emplace name' value (constants d)) (attributes d)
       (overloads d) (failedAttributes d) (functionAttributes d) (modules d)
       (iterableModuleKind d) (pyClass d)"

text \<open>
  \<^verbatim>\<open>addAttribute\<close>. \<open>is_FunctionType t\<close> says that \<^verbatim>\<open>t->cast<FunctionType>()\<close> is not null;
  \<open>unshapedType\<close> is the helper of that name. The two assertions come first, in the
  order of the source.
\<close>

definition addAttribute ::
  "('ty \<Rightarrow> bool) \<Rightarrow> ('ty \<Rightarrow> 'ty) \<Rightarrow> 'ty RawConcreteModuleType \<Rightarrow> string \<Rightarrow> 'ty option \<Rightarrow> bool
     \<Rightarrow> error + 'ty RawConcreteModuleType" where
  "addAttribute is_FunctionType unshapedType d name' type isParameter =
     (case type of
        None \<Rightarrow> Inl internal_assert
      | Some t \<Rightarrow>
          if is_FunctionType t then Inl internal_assert
          else Inr (ConcreteModuleTypeData (isPoisoned d) (constants d)
                 (emplace name' (Attribute (unshapedType t) isParameter) (attributes d))
                 (overloads d) (failedAttributes d) (functionAttributes d) (modules d)
                 (iterableModuleKind d) (pyClass d)))"

text \<open>
  \<^verbatim>\<open>addFunctionAttribute\<close>: \<^verbatim>\<open>type->expect<FunctionType>()\<close> asserts that the cast
  succeeds.
\<close>

definition addFunctionAttribute ::
  "('ty \<Rightarrow> bool) \<Rightarrow> 'ty RawConcreteModuleType \<Rightarrow> string \<Rightarrow> 'ty option \<Rightarrow> pyobj
     \<Rightarrow> error + 'ty RawConcreteModuleType" where
  "addFunctionAttribute is_FunctionType d name' type pyFunction' =
     (case type of
        None \<Rightarrow> Inl internal_assert
      | Some t \<Rightarrow>
          if \<not> is_FunctionType t then Inl internal_assert
          else Inr (ConcreteModuleTypeData (isPoisoned d) (constants d) (attributes d)
                 (overloads d) (failedAttributes d)
                 (emplace name' (FunctionAttribute t pyFunction') (functionAttributes d))
                 (modules d) (iterableModuleKind d) (pyClass d)))"

text \<open>
  \<^verbatim>\<open>addModule\<close> and \<^verbatim>\<open>addModuleInterface\<close> append to the vector
  (\<^verbatim>\<open>emplace_back\<close>). An entry built from a finalized type has a null \<^verbatim>\<open>type_\<close>, an entry
  built from an interface type has a null \<^verbatim>\<open>meta_\<close>. \<open>is_module_interface t\<close> is
  \<^verbatim>\<open>t->cast<InterfaceType>() && t->is_module()\<close>.
\<close>

definition addModule ::
  "'ty RawConcreteModuleType \<Rightarrow> string \<Rightarrow> 'ty ConcreteModuleType option \<Rightarrow> 'ty RawConcreteModuleType" where
  "addModule d name' meta' =
     ConcreteModuleTypeData (isPoisoned d) (constants d) (attributes d) (overloads d)
       (failedAttributes d) (functionAttributes d) (modules d @ [ModuleInfo name' meta' None])
       (iterableModuleKind d) (pyClass d)"

definition addModuleInterface ::
  "('ty \<Rightarrow> bool) \<Rightarrow> 'ty RawConcreteModuleType \<Rightarrow> string \<Rightarrow> 'ty
     \<Rightarrow> error + 'ty RawConcreteModuleType" where
  "addModuleInterface is_module_interface d name' type =
     (if \<not> is_module_interface type then Inl internal_assert
      else Inr (ConcreteModuleTypeData (isPoisoned d) (constants d) (attributes d) (overloads d)
             (failedAttributes d) (functionAttributes d)
             (modules d @ [ModuleInfo name' None (Some type)])
             (iterableModuleKind d) (pyClass d)))"

definition addOverload ::
  "'ty RawConcreteModuleType \<Rightarrow> string \<Rightarrow> string list \<Rightarrow> 'ty RawConcreteModuleType" where
  "addOverload d methodName overloadedMethodNames =
     ConcreteModuleTypeData (isPoisoned d) (constants d) (attributes d)
       (emplace methodName overloadedMethodNames (overloads d))
       (failedAttributes d) (functionAttributes d) (modules d)
       (iterableModuleKind d) (pyClass d)"

definition addFailedAttribute ::
  "'ty RawConcreteModuleType \<Rightarrow> string \<Rightarrow> string \<Rightarrow> 'ty RawConcreteModuleType" where
  "addFailedAttribute d name' failureReason =
     ConcreteModuleTypeData (isPoisoned d) (constants d) (attributes d) (overloads d)
       (emplace name' failureReason (failedAttributes d))
       (functionAttributes d) (modules d) (iterableModuleKind d) (pyClass d)"

section \<open>Queries on a finalized type\<close>

definition findFailedAttribute :: "'ty ConcreteModuleType \<Rightarrow> string \<Rightarrow> string option" where
  "findFailedAttribute this name' = map_of (failedAttributes (data this)) name'"

definition findConstant :: "'ty ConcreteModuleType \<Rightarrow> string \<Rightarrow> pyobj option" where
  "findConstant this name' = map_of (constants (data this)) name'"

definition findOverloads :: "'ty ConcreteModuleType \<Rightarrow> string \<Rightarrow> string list option" where
  "findOverloads this name' = map_of (overloads (data this)) name'"

text \<open>
  \<^verbatim>\<open>findSubmoduleConcreteType\<close>: the first entry with the name, by \<^verbatim>\<open>std::find_if\<close>; the
  result is its \<^verbatim>\<open>meta_\<close> pointer, null when there is no such entry.
\<close>

definition findSubmoduleConcreteType ::
  "'ty ConcreteModuleType \<Rightarrow> string \<Rightarrow> 'ty ConcreteModuleType option" where
  "findSubmoduleConcreteType this name' =
     (case find (\<lambda>info. name info = name') (modules (data this)) of
        None \<Rightarrow> None
      | Some info \<Rightarrow> meta info)"

section \<open>The type registry and \<^verbatim>\<open>build\<close>\<close>

text \<open>
  \<^verbatim>\<open>createTypeFromData\<close> works on the Python compilation unit, the registry of class
  types, through \<^verbatim>\<open>get_class\<close>, \<^verbatim>\<open>mangle\<close>, \<^verbatim>\<open>register_type\<close>, \<^verbatim>\<open>ClassType::create\<close> and
  \<^verbatim>\<open>ClassType::addAttribute\<close>, and on names of the class \<^verbatim>\<open>c10::QualifiedName\<close>. They
  belong to the compilation unit and the type system, which are defined in other files;
  they are modelled below from what the specification says of the registry. \<^verbatim>\<open>mangle\<close>
  and the Python function \<^verbatim>\<open>_qualified_name\<close> are parameters.
\<close>

text \<open>
  Modelled from the spec: \<^verbatim>\<open>c10::QualifiedName\<close>, a dotted name split into the atoms of
  its prefix (\<^verbatim>\<open>prefix()\<close>, empty when the name has no dot) and its last atom
  (\<^verbatim>\<open>name()\<close>).
\<close>

datatype QualifiedName = QualifiedName (qn_prefix: "string list") (qn_name: string)

text \<open>
  Modelled from the spec: a compiled class type, with its name and the fields added to
  it in order. The type of a field is a \<^verbatim>\<open>TypePtr\<close>: null, a type of the type system, or
  the class type of a finalized submodule.
\<close>

record 'ty ClassType =
  class_name :: QualifiedName
  is_module :: bool
  class_attributes :: "(string \<times> ('ty + addr) option \<times> bool) list"

text \<open>
  Modelled from the spec: the state \<^verbatim>\<open>build\<close> runs in. \<open>heap\<close> holds the class type
  objects created so far, a \<^verbatim>\<open>ClassTypePtr\<close> being an index into it; \<open>classes\<close> are the
  pointers registered in the compilation unit, in order of registration.
\<close>

record 'ty CompilationUnit =
  heap :: "'ty ClassType list"
  classes :: "addr list"

text \<open>
  Modelled from the spec: \<^verbatim>\<open>lookup(qualifiedName) -> optional compiled type\<close>, the
  registered class type of that name, null when there is none.
\<close>

definition get_class :: "'ty CompilationUnit \<Rightarrow> QualifiedName \<Rightarrow> addr option" where
  "get_class cu qn = find (\<lambda>p. p < length (heap cu) \<and> class_name (heap cu ! p) = qn) (classes cu)"

text \<open>
  Modelled from the spec: \<^verbatim>\<open>ClassType::create\<close> makes a new class type object without
  fields and returns the pointer to it.
\<close>

definition ClassType_create ::
  "'ty CompilationUnit \<Rightarrow> QualifiedName \<Rightarrow> bool \<Rightarrow> addr \<times> 'ty CompilationUnit" where
  "ClassType_create cu qn is_mod =
     (length (heap cu),
      cu\<lparr>heap := heap cu @ [\<lparr>class_name = qn, is_module = is_mod, class_attributes = []\<rparr>]\<rparr>)"

text \<open>Modelled from the spec: \<^verbatim>\<open>register(type)\<close> enters the class type in the registry.\<close>

definition register_type :: "'ty CompilationUnit \<Rightarrow> addr \<Rightarrow> 'ty CompilationUnit" where
  "register_type cu cls = cu\<lparr>classes := classes cu @ [cls]\<rparr>"

text \<open>
  Modelled from the spec: \<^verbatim>\<open>ClassType::addAttribute\<close> appends a field to the class type
  (the compiled type is populated field by field, in insertion order).
\<close>

definition ClassType_addAttribute ::
  "'ty CompilationUnit \<Rightarrow> addr \<Rightarrow> string \<Rightarrow> ('ty + addr) option \<Rightarrow> bool \<Rightarrow> 'ty CompilationUnit" where
  "ClassType_addAttribute cu cls n ty is_parameter =
     cu\<lparr>heap := (heap cu)[cls := (heap cu ! cls)
        \<lparr>class_attributes := class_attributes (heap cu ! cls) @ [(n, ty, is_parameter)]\<rparr>]\<rparr>"

text \<open>\<^verbatim>\<open>ModuleInfo::getJitType\<close>.\<close>

definition ModuleInfo_getJitType :: "'ty ModuleInfo \<Rightarrow> ('ty + addr) option" where
  "ModuleInfo_getJitType m =
     (case meta m of
        None \<Rightarrow> map_option Inl (mod_type m)
      | Some t \<Rightarrow> Some (Inr (jitType t)))"

text \<open>
  \<^verbatim>\<open>createTypeFromData\<close>. \<open>qualified_name c\<close> is the \<^verbatim>\<open>c10::QualifiedName\<close> made from the
  string that \<^verbatim>\<open>torch._jit_internal._qualified_name\<close> returns for the class \<open>c\<close>;
  \<open>mangle cu q\<close> is \<^verbatim>\<open>cu->mangle(q)\<close>.
\<close>

definition createTypeFromData ::
  "(pyobj \<Rightarrow> QualifiedName) \<Rightarrow> ('ty CompilationUnit \<Rightarrow> QualifiedName \<Rightarrow> QualifiedName)
     \<Rightarrow> 'ty ConcreteModuleTypeData \<Rightarrow> 'ty CompilationUnit \<Rightarrow> addr \<times> 'ty CompilationUnit" where
  "createTypeFromData qualified_name mangle d cu =
     (let className = qualified_name (pyClass d);
          className = (if qn_prefix className = []
                       then QualifiedName [''__torch__''] (qn_name className) else className);
          className = (if get_class cu className \<noteq> None then mangle cu className else className);
          (cls, cu) = ClassType_create cu className True;
          cu = register_type cu cls;
          cu = fold (\<lambda>pr cu. ClassType_addAttribute cu cls (fst pr)
                       (Some (Inl (attr_type (snd pr)))) (isParam (snd pr)))
                 (attributes d) cu;
          cu = fold (\<lambda>moduleInfo cu. ClassType_addAttribute cu cls (name moduleInfo)
                       (ModuleInfo_getJitType moduleInfo) False)
                 (modules d) cu
      in (cls, cu))"

text \<open>
  \<^verbatim>\<open>RawConcreteModuleType::build\<close> constructs a \<^verbatim>\<open>ConcreteModuleType\<close> from a copy of
  \<^verbatim>\<open>data_\<close>; the constructor stores the descriptor and derives the class type.
\<close>

definition build ::
  "(pyobj \<Rightarrow> QualifiedName) \<Rightarrow> ('ty CompilationUnit \<Rightarrow> QualifiedName \<Rightarrow> QualifiedName)
     \<Rightarrow> 'ty RawConcreteModuleType \<Rightarrow> 'ty CompilationUnit
     \<Rightarrow> 'ty ConcreteModuleType \<times> 'ty CompilationUnit" where
  "build qualified_name mangle d cu =
     (let (cls, cu') = createTypeFromData qualified_name mangle d cu
      in (ConcreteModuleType d cls, cu'))"

text \<open>
  The name that \<^verbatim>\<open>build\<close> is to register, in the words of the specification: the
  canonical name is the qualified name of the class, in the default namespace
  \<^verbatim>\<open>__torch__\<close> when it has no prefix; the resolved name is the canonical name, or its
  mangled alternative when the registry already holds a type of the canonical name.
\<close>

definition canonical_name :: "(pyobj \<Rightarrow> QualifiedName) \<Rightarrow> 'ty ConcreteModuleTypeData \<Rightarrow> QualifiedName" where
  "canonical_name qualified_name d =
     (if qn_prefix (qualified_name (pyClass d)) = []
      then QualifiedName [''__torch__''] (qn_name (qualified_name (pyClass d)))
      else qualified_name (pyClass d))"

definition resolved_name ::
  "(pyobj \<Rightarrow> QualifiedName) \<Rightarrow> ('ty CompilationUnit \<Rightarrow> QualifiedName \<Rightarrow> QualifiedName)
     \<Rightarrow> 'ty ConcreteModuleTypeData \<Rightarrow> 'ty CompilationUnit \<Rightarrow> QualifiedName" where
  "resolved_name qualified_name mangle d cu =
     (case get_class cu (canonical_name qualified_name d) of
        None \<Rightarrow> canonical_name qualified_name d
      | Some _ \<Rightarrow> mangle cu (canonical_name qualified_name d))"

text \<open>Every registered pointer points to a class type object.\<close>

definition registered_exist :: "'ty CompilationUnit \<Rightarrow> bool" where
  "registered_exist cu \<longleftrightarrow> list_all (\<lambda>p. p < length (heap cu)) (classes cu)"

section \<open>Auxiliary facts\<close>

subsection \<open>Comparing tables\<close>

lemma unordered_map_eq_loop_total:
  "(\<And>a b. \<not> isl (eq a b)) \<Longrightarrow> \<not> isl (unordered_map_eq_loop eq this other)"
proof (induction this)
  case Nil
  show ?case by simp
next
  case (Cons kv rest)
  obtain k v where kv: "kv = (k, v)" by (cases kv)
  show ?case
  proof (cases "map_of other k")
    case None
    with kv show ?thesis by simp
  next
    case (Some w)
    from Cons.prems [of w v] obtain r where "eq w v = Inr r" by (cases "eq w v") auto
    with Cons.IH [OF Cons.prems] kv Some show ?thesis by (cases r) simp_all
  qed
qed

lemma unordered_map_eq_total:
  "(\<And>a b. \<not> isl (eq a b)) \<Longrightarrow> \<not> isl (unordered_map_eq eq this other)"
  unfolding unordered_map_eq_def using unordered_map_eq_loop_total [of eq this other] by simp

lemma unordered_map_eq_loop_differs:
  assumes "(k, v) \<in> set this" and "map_of other k = Some w" and "eq w v = Inr False"
    and total: "\<And>a b. \<not> isl (eq a b)"
  shows "unordered_map_eq_loop eq this other = Inr False"
  using assms(1)
proof (induction this)
  case Nil
  then show ?case by simp
next
  case (Cons kv rest)
  obtain k' v' where kv: "kv = (k', v')" by (cases kv)
  show ?case
  proof (cases "map_of other k'")
    case None
    with kv show ?thesis by simp
  next
    case (Some w')
    from total [of w' v'] obtain r where r: "eq w' v' = Inr r" by (cases "eq w' v'") auto
    show ?thesis
    proof (cases r)
      case False
      with kv Some r show ?thesis by simp
    next
      case True
      have "(k, v) \<in> set rest"
      proof (rule ccontr)
        assume "(k, v) \<notin> set rest"
        with Cons.prems kv have "k' = k" "v' = v" by auto
        with Some assms(2) have "w' = w" by simp
        with r True \<open>v' = v\<close> assms(3) show False by simp
      qed
      from Cons.IH [OF this] kv Some r True show ?thesis by simp
    qed
  qed
qed

lemma unordered_map_eq_differs:
  assumes "map_of this k = Some v" and "map_of other k = Some w" and "eq w v = Inr False"
    and total: "\<And>a b. \<not> isl (eq a b)"
  shows "unordered_map_eq eq this other = Inr False"
  unfolding unordered_map_eq_def
  using unordered_map_eq_loop_differs [of k v this other w eq, OF map_of_SomeD [OF assms(1)] assms(2) assms(3) total]
  by simp

lemma andalso_Inr_False [simp]: "andalso (Inr b) (Inr False) = Inr False"
  by (cases b) simp_all

lemma unordered_map_eq_loop_raises:
  assumes "\<forall>(k', v') \<in> set pre. \<exists>w'. map_of other k' = Some w' \<and> eq w' v' = Inr True"
    and "map_of other k = Some w" and "eq w v = Inl e"
  shows "unordered_map_eq_loop eq (pre @ (k, v) # post) other = Inl e"
  using assms(1)
proof (induction pre)
  case Nil
  from assms(2,3) show ?case by simp
next
  case (Cons kv pre)
  obtain k' v' where kv: "kv = (k', v')" by (cases kv)
  from Cons.prems kv obtain w' where "map_of other k' = Some w'" "eq w' v' = Inr True"
    by auto
  moreover from Cons.prems have "\<forall>(k', v') \<in> set pre. \<exists>w'. map_of other k' = Some w' \<and> eq w' v' = Inr True"
    by simp
  ultimately show ?case using Cons.IH kv by simp
qed

subsection \<open>Inserting into tables\<close>

lemma emplace_present: "map_of m k = Some w \<Longrightarrow> emplace k v m = m"
  by (simp add: emplace_def)

lemma emplace_absent: "map_of m k = None \<Longrightarrow> emplace k v m = (k, v) # m"
  by (simp add: emplace_def)


lemma rebuild_data [simp]:
  "ConcreteModuleTypeData (isPoisoned d) (constants d) (attributes d) (overloads d)
     (failedAttributes d) (functionAttributes d) (modules d) (iterableModuleKind d) (pyClass d) = d"
  by (cases d) simp

subsection \<open>Sorting and comparing module vectors\<close>

lemma insert_by_name_insort: "insert_by_name a bs = insort_key name a bs"
  by (induction bs) auto

lemma std_sort_sort_key: "std_sort xs = sort_key name xs"
  by (induction xs) (simp_all add: insert_by_name_insort)

lemma filter_distinct_key:
  "distinct (map f xs) \<Longrightarrow> k \<in> set xs \<Longrightarrow> filter (\<lambda>x. f k = f x) xs = [k]"
proof (induction xs)
  case Nil
  then show ?case by simp
next
  case (Cons x xs)
  show ?case
  proof (cases "k = x")
    case True
    from Cons.prems have "f x \<notin> f ` set xs" by simp
    then have "\<forall>y \<in> set xs. f y \<noteq> f x" by (metis imageI)
    then have "filter (\<lambda>y. f x = f y) xs = []" by (auto simp: filter_empty_conv)
    with True show ?thesis by simp
  next
    case False
    with Cons.prems have kx: "k \<in> set xs" by simp
    from Cons.prems have "f x \<notin> f ` set xs" by simp
    with kx have "f k \<noteq> f x" by (metis imageI)
    with kx Cons show ?thesis by simp
  qed
qed

lemma std_sort_permutation:
  assumes "mset ms' = mset ms" and "distinct (map name ms)"
  shows "std_sort ms' = std_sort ms"
proof -
  have s: "set ms' = set ms" using assms(1) by (rule mset_eq_setD)
  have "mset (map name ms') = mset (map name ms)" using assms(1) by simp
  then have d': "distinct (map name ms')"
    using assms(2) by (metis mset_eq_imp_distinct_iff)
  have "sort_key name ms' = sort_key name ms"
  proof (rule properties_for_sort_key)
    show "mset (sort_key name ms) = mset ms'" using assms(1) by simp
    show "sorted (map name (sort_key name ms))" by simp
    fix k assume "k \<in> set (sort_key name ms)"
    then have k: "k \<in> set ms" by simp
    have dd: "distinct (map name (sort_key name ms))"
      using assms(2) by (metis mset_eq_imp_distinct_iff mset_map mset_sort)
    have "filter (\<lambda>x. name k = name x) (sort_key name ms) = [k]"
      using filter_distinct_key [OF dd, of k] k by simp
    moreover have "filter (\<lambda>x. name k = name x) ms' = [k]"
      using filter_distinct_key [OF d', of k] k s by simp
    ultimately show "filter (\<lambda>x. name k = name x) (sort_key name ms)
        = filter (\<lambda>x. name k = name x) ms'" by simp
  qed
  then show ?thesis by (simp add: std_sort_sort_key)
qed

lemma length_std_sort: "length (std_sort xs) = length xs"
  by (simp add: std_sort_sort_key)

lemma std_equal_raises:
  assumes "list_all2 (\<lambda>p q. eq p q = Inr True) pre pre'" and "eq x y = Inl e"
  shows "std_equal eq (pre @ x # post) (pre' @ y # post') = Inl e"
  using assms(1)
proof (induction rule: list_all2_induct)
  case Nil
  from assms(2) show ?case by simp
next
  case (Cons p ps q qs)
  then show ?case by simp
qed

lemma std_equal_refl:
  "(\<And>x. x \<in> set xs \<Longrightarrow> eq x x = Inr True) \<Longrightarrow> std_equal eq xs xs = Inr True"
  by (induction xs) simp_all

lemma ModuleInfo_eq_refl:
  "meta m \<noteq> None \<or> mod_type m \<noteq> None \<Longrightarrow> ModuleInfo_eq rich m m = Inr True"
  by (cases "meta m"; cases "mod_type m") (simp_all add: ModuleInfo_eq.simps equals.simps)

lemma unordered_map_eq_loop_refl:
  assumes "distinct (map fst m)" and "\<And>k v. (k, v) \<in> set m \<Longrightarrow> eq v v = Inr True"
  shows "set xs \<subseteq> set m \<Longrightarrow> unordered_map_eq_loop eq xs m = Inr True"
proof (induction xs)
  case Nil
  show ?case by simp
next
  case (Cons kv xs)
  obtain k v where kv: "kv = (k, v)" by (cases kv)
  with Cons.prems have in_m: "(k, v) \<in> set m" by simp
  with assms(1) have "map_of m k = Some v" by simp
  moreover from in_m have "eq v v = Inr True" by (rule assms(2))
  moreover from Cons have "unordered_map_eq_loop eq xs m = Inr True" by simp
  ultimately show ?case using kv by simp
qed

lemma unordered_map_eq_refl:
  assumes "distinct (map fst m)" and "\<And>k v. (k, v) \<in> set m \<Longrightarrow> eq v v = Inr True"
  shows "unordered_map_eq eq m m = Inr True"
  unfolding unordered_map_eq_def
  using unordered_map_eq_loop_refl [of m eq m, OF assms] by simp

subsection \<open>Creating and registering class types\<close>

lemma find_append:
  "find P (xs @ ys) = (case find P xs of None \<Rightarrow> find P ys | Some x \<Rightarrow> Some x)"
  by (induction xs) simp_all

lemma ClassType_addAttribute_names:
  "classes (ClassType_addAttribute cu cls n ty ip) = classes cu \<and>
   map class_name (heap (ClassType_addAttribute cu cls n ty ip)) = map class_name (heap cu)"
proof (cases "cls < length (heap cu)")
  case True
  then show ?thesis
    by (simp add: ClassType_addAttribute_def map_update list_update_same_conv)
next
  case False
  then have "length (heap cu) \<le> cls" by simp
  then show ?thesis by (simp add: ClassType_addAttribute_def list_update_beyond)
qed

lemma fold_addAttribute_names:
  "classes (fold (\<lambda>x cu. ClassType_addAttribute cu cls (f x) (g x) (h x)) xs cu) = classes cu \<and>
   map class_name (heap (fold (\<lambda>x cu. ClassType_addAttribute cu cls (f x) (g x) (h x)) xs cu))
     = map class_name (heap cu)"
  by (induction xs arbitrary: cu) (simp_all add: ClassType_addAttribute_names)

lemma createTypeFromData_effect:
  assumes "createTypeFromData qualified_name mangle d cu = (cls, cu')"
  shows "cls = length (heap cu)"
    and "classes cu' = classes cu @ [cls]"
    and "map class_name (heap cu') = map class_name (heap cu) @ [resolved_name qualified_name mangle d cu]"
  using assms
  by (auto simp: createTypeFromData_def resolved_name_def canonical_name_def Let_def
      ClassType_create_def register_type_def fold_addAttribute_names)

lemma get_class_names:
  "get_class cu qn =
     find (\<lambda>p. p < length (heap cu) \<and> map class_name (heap cu) ! p = qn) (classes cu)"
  unfolding get_class_def by (rule find_cong) auto

lemma get_class_after_create:
  assumes c: "createTypeFromData qualified_name mangle d cu = (cls, cu')"
    and wf: "registered_exist cu"
  shows "get_class cu' qn =
           (case get_class cu qn of
              Some p \<Rightarrow> Some p
            | None \<Rightarrow> if resolved_name qualified_name mangle d cu = qn then Some cls else None)"
proof -
  note e = createTypeFromData_effect [OF c]
  have len: "length (heap cu') = Suc (length (heap cu))"
    using e(3) by (metis length_append_singleton length_map)
  have old: "find (\<lambda>p. p < length (heap cu') \<and> map class_name (heap cu') ! p = qn) (classes cu)
      = find (\<lambda>p. p < length (heap cu) \<and> map class_name (heap cu) ! p = qn) (classes cu)"
  proof (rule find_cong)
    fix p assume "p \<in> set (classes cu)"
    with wf have "p < length (heap cu)" by (simp add: registered_exist_def list_all_iff)
    then show "(p < length (heap cu') \<and> map class_name (heap cu') ! p = qn)
        = (p < length (heap cu) \<and> map class_name (heap cu) ! p = qn)"
      using len e(3) by (simp add: nth_append)
  qed simp
  have new: "map class_name (heap cu') ! cls = resolved_name qualified_name mangle d cu"
    using e(1,3) by (simp add: nth_append)
  show ?thesis
    unfolding get_class_names [of cu'] get_class_names [of cu] e(2) find_append old
    using new len e(1) by (simp split: option.splits)
qed

lemma registered_exist_after_create:
  assumes c: "createTypeFromData qualified_name mangle d cu = (cls, cu')"
    and wf: "registered_exist cu"
  shows "registered_exist cu'"
proof -
  note e = createTypeFromData_effect [OF c]
  have len: "length (heap cu') = Suc (length (heap cu))"
    using e(3) by (metis length_append_singleton length_map)
  with wf e(1,2) show ?thesis
    by (auto simp: registered_exist_def list_all_iff)
qed

lemma class_name_after_create:
  assumes c: "createTypeFromData qualified_name mangle d cu = (cls, cu')"
  shows "class_name (heap cu' ! cls) = resolved_name qualified_name mangle d cu"
    and "p < length (heap cu) \<Longrightarrow> class_name (heap cu' ! p) = class_name (heap cu ! p)"
    and "length (heap cu') = Suc (length (heap cu))"
proof -
  note e = createTypeFromData_effect [OF c]
  show len: "length (heap cu') = Suc (length (heap cu))"
    using e(3) by (metis length_append_singleton length_map)
  have "map class_name (heap cu') ! cls = resolved_name qualified_name mangle d cu"
    using e(1,3) by (simp add: nth_append)
  then show "class_name (heap cu' ! cls) = resolved_name qualified_name mangle d cu"
    using len e(1) by simp
  assume p: "p < length (heap cu)"
  then have "map class_name (heap cu') ! p = map class_name (heap cu) ! p"
    using e(3) by (simp add: nth_append)
  then show "class_name (heap cu' ! p) = class_name (heap cu ! p)"
    using p len by simp
qed

lemmas build_eval = build_def createTypeFromData_def ClassType_create_def register_type_def
  ClassType_addAttribute_def ModuleInfo_getJitType_def get_class_def canonical_name_def
  resolved_name_def registered_exist_def

subsection \<open>Unfolding the model on concrete descriptors\<close>

lemmas eq_eval = data_eq.simps ModuleInfo_eq.simps equals.simps unordered_map_eq_def
  vector_eq_def Constant_eq_def Attribute_eq_def FunctionAttribute_eq_def
  RawConcreteModuleType_def emplace_def addConstant_def addAttribute_def
  addFunctionAttribute_def addModule_def addModuleInterface_def addOverload_def
  addFailedAttribute_def setPoisoned_def setIterableModuleKind_def
  RawConcreteModuleType_equals_def RawConcreteModuleType_equals_finalized_def

section \<open>Properties of the equality engine\<close>

text \<open>
  C1. The claim: descriptors whose sorted submodule lists carry different names at some
  position compare unequal. \<^verbatim>\<open>operator==(ModuleInfo, ModuleInfo)\<close> never reads \<^verbatim>\<open>name_\<close>:
  two descriptors of the same class whose only submodule is the same finalized type,
  stored as \<open>a\<close> in one and as \<open>b\<close> in the other, compare equal.
\<close>

theorem submodule_names_not_compared:
  "data_eq rich
     (addModule (RawConcreteModuleType 7 :: string RawConcreteModuleType) ''a''
        (Some (ConcreteModuleType (RawConcreteModuleType 9) 100)))
     (addModule (RawConcreteModuleType 7) ''b''
        (Some (ConcreteModuleType (RawConcreteModuleType 9) 100)))
   = Inr True"
  by (simp add: eq_eval)

text \<open>
  C2. A poisoned descriptor compares unequal to everything under the descriptor-level
  equality, on either side of the comparison: to itself, to any other builder and to
  any finalized type.
\<close>

theorem poisoned_never_equal:
  "isPoisoned d \<Longrightarrow>
     data_eq rich d d = Inr False \<and>
     data_eq rich d x = Inr False \<and>
     data_eq rich x d = Inr False \<and>
     RawConcreteModuleType_equals rich d d = Inr False \<and>
     RawConcreteModuleType_equals rich d x = Inr False \<and>
     RawConcreteModuleType_equals rich x d = Inr False \<and>
     RawConcreteModuleType_equals_finalized rich d t = Inr False"
  by (simp add: data_eq.simps RawConcreteModuleType_equals_def
      RawConcreteModuleType_equals_finalized_def)

theorem poisoned_never_equal_witness:
  "isPoisoned (setPoisoned (addConstant (RawConcreteModuleType 7 :: string RawConcreteModuleType) ''k'' 1)) \<and>
   RawConcreteModuleType_equals (\<lambda>a b. if a = b then 1 else 0)
     (setPoisoned (addConstant (RawConcreteModuleType 7 :: string RawConcreteModuleType) ''k'' 1))
     (setPoisoned (addConstant (RawConcreteModuleType 7) ''k'' 1)) = Inr False \<and>
   RawConcreteModuleType_equals (\<lambda>a b. if a = b then 1 else 0)
     (setPoisoned (addConstant (RawConcreteModuleType 7 :: string RawConcreteModuleType) ''k'' 1))
     (addConstant (RawConcreteModuleType 7) ''k'' 1) = Inr False"
proof -
  let ?d = "setPoisoned (addConstant (RawConcreteModuleType 7 :: string RawConcreteModuleType) ''k'' 1)"
  have p: "isPoisoned ?d" by (simp add: setPoisoned_def)
  from poisoned_never_equal [OF p, of "\<lambda>a b. if a = b then 1 else 0"
      "addConstant (RawConcreteModuleType 7) ''k'' 1"]
  show ?thesis using p by simp
qed

text \<open>
  C3. A finalized type equals itself, and two finalized types that point to the same
  class type object are equal at once: the result does not depend on the descriptors
  or on the comparison of constants, so it is \<open>Inr True\<close> for every \<open>rich\<close>, also for one
  that raises on every pair.
\<close>

theorem equals_same_jitType:
  "equals rich t t = Inr True \<and>
   (jitType t = jitType u \<longrightarrow> equals rich t u = Inr True)"
  by (simp add: equals.simps)

theorem equals_same_jitType_witness:
  "jitType (ConcreteModuleType (addConstant (RawConcreteModuleType 7 :: string RawConcreteModuleType) ''k'' 1) 3)
     = jitType (ConcreteModuleType (setPoisoned (RawConcreteModuleType 8)) 3) \<and>
   equals (\<lambda>a b. - 1)
     (ConcreteModuleType (addConstant (RawConcreteModuleType 7 :: string RawConcreteModuleType) ''k'' 1) 3)
     (ConcreteModuleType (setPoisoned (RawConcreteModuleType 8)) 3) = Inr True"
  using equals_same_jitType [of "\<lambda>a b. - 1"
      "ConcreteModuleType (addConstant (RawConcreteModuleType 7 :: string RawConcreteModuleType) ''k'' 1) 3"
      "ConcreteModuleType (setPoisoned (RawConcreteModuleType 8)) 3"]
  by simp

text \<open>
  C4. A Python comparison of two constants that raises is never turned into a boolean:
  the exception leaves every equality operation that reached the pair.
  \<^item> \<^verbatim>\<open>Constant::operator==\<close> throws when the comparison returns -1.
  \<^item> Constants of the two descriptors compared: the walk reaches the pair under key \<open>k\<close>
    when no earlier check ended the comparison (neither side is poisoned, class and
    iterable kind agree, the two tables have the same size, every entry the left table
    iterates before \<open>k\<close> is found on the right with an equal value); then the comparison
    of the tables and of the descriptors throws.
  \<^item> Constants of nested submodules: when the members of the two descriptors agree and
    the walk over the sorted module entries reaches two entries that hold finalized
    types of different class types whose descriptors throw when compared, then the
    comparison of the two finalized types, of the two entries and of the two parent
    descriptors throws. With the previous item this covers a raising pair at any
    depth of nesting.
  \<^item> An exception that leaves the comparison of two descriptors leaves
    \<^verbatim>\<open>RawConcreteModuleType::equals\<close> on a builder and on a finalized type, and
    \<^verbatim>\<open>ConcreteModuleType::equals\<close> on finalized types of different class types.
\<close>

theorem constant_comparison_failure_propagates:
  "(rich w v = - 1 \<longrightarrow> Constant_eq rich w v = Inl error_already_set) \<and>
   (\<not> isPoisoned lhs \<and> \<not> isPoisoned rhs \<and>
    pyClass lhs = pyClass rhs \<and>
    iterableModuleKind lhs = iterableModuleKind rhs \<and>
    length (constants lhs) = length (constants rhs) \<and>
    constants lhs = pre @ (k, v) # post \<and>
    (\<forall>(k', v') \<in> set pre. \<exists>w'. map_of (constants rhs) k' = Some w' \<and> rich w' v' = 1) \<and>
    map_of (constants rhs) k = Some w \<and>
    rich w v = - 1
    \<longrightarrow> unordered_map_eq (Constant_eq rich) (constants lhs) (constants rhs)
          = Inl error_already_set \<and>
        data_eq rich lhs rhs = Inl error_already_set) \<and>
   (\<not> isPoisoned lhs \<and> \<not> isPoisoned rhs \<and>
    pyClass lhs = pyClass rhs \<and>
    iterableModuleKind lhs = iterableModuleKind rhs \<and>
    unordered_map_eq (Constant_eq rich) (constants lhs) (constants rhs) = Inr True \<and>
    unordered_map_eq (\<lambda>a b. Inr (Attribute_eq a b)) (attributes lhs) (attributes rhs)
      = Inr True \<and>
    unordered_map_eq (\<lambda>a b. Inr (a = b)) (overloads lhs) (overloads rhs) = Inr True \<and>
    unordered_map_eq (\<lambda>a b. Inr (FunctionAttribute_eq a b))
      (functionAttributes lhs) (functionAttributes rhs) = Inr True \<and>
    length (modules lhs) = length (modules rhs) \<and>
    std_sort (modules lhs) = mpre @ x # mpost \<and>
    std_sort (modules rhs) = mpre' @ y # mpost' \<and>
    list_all2 (\<lambda>p q. ModuleInfo_eq rich p q = Inr True) mpre mpre' \<and>
    meta x = Some t \<and> meta y = Some u \<and> jitType t \<noteq> jitType u \<and>
    data_eq rich (data t) (data u) = Inl e
    \<longrightarrow> equals rich t u = Inl e \<and>
        ModuleInfo_eq rich x y = Inl e \<and>
        data_eq rich lhs rhs = Inl e) \<and>
   (data_eq rich lhs rhs = Inl e
    \<longrightarrow> RawConcreteModuleType_equals rich lhs rhs = Inl e \<and>
        RawConcreteModuleType_equals_finalized rich lhs (ConcreteModuleType rhs j) = Inl e \<and>
        (if j = j'
         then equals rich (ConcreteModuleType lhs j) (ConcreteModuleType rhs j') = Inr True
         else equals rich (ConcreteModuleType lhs j) (ConcreteModuleType rhs j') = Inl e))"
proof (intro conjI impI)
  assume "rich w v = - 1"
  then show "Constant_eq rich w v = Inl error_already_set"
    by (simp add: Constant_eq_def)
next
  assume a: "\<not> isPoisoned lhs \<and> \<not> isPoisoned rhs \<and>
    pyClass lhs = pyClass rhs \<and>
    iterableModuleKind lhs = iterableModuleKind rhs \<and>
    length (constants lhs) = length (constants rhs) \<and>
    constants lhs = pre @ (k, v) # post \<and>
    (\<forall>(k', v') \<in> set pre. \<exists>w'. map_of (constants rhs) k' = Some w' \<and> rich w' v' = 1) \<and>
    map_of (constants rhs) k = Some w \<and>
    rich w v = - 1"
  have c: "Constant_eq rich w v = Inl error_already_set"
    using a by (simp add: Constant_eq_def)
  have p: "\<forall>(k', v') \<in> set pre. \<exists>w'. map_of (constants rhs) k' = Some w' \<and>
      Constant_eq rich w' v' = Inr True"
    using a by (auto simp: Constant_eq_def)
  from a have w: "map_of (constants rhs) k = Some w" by simp
  from a have len: "length (constants lhs) = length (constants rhs)" by blast
  from a have split: "constants lhs = pre @ (k, v) # post" by blast
  have "unordered_map_eq_loop (Constant_eq rich) (constants lhs) (constants rhs)
      = Inl error_already_set"
    unfolding split by (rule unordered_map_eq_loop_raises [OF p w c])
  with len show m: "unordered_map_eq (Constant_eq rich) (constants lhs) (constants rhs)
      = Inl error_already_set"
    by (simp add: unordered_map_eq_def)
  show "data_eq rich lhs rhs = Inl error_already_set"
    using a m by (simp add: data_eq.simps)
next
  assume a: "\<not> isPoisoned lhs \<and> \<not> isPoisoned rhs \<and>
    pyClass lhs = pyClass rhs \<and>
    iterableModuleKind lhs = iterableModuleKind rhs \<and>
    unordered_map_eq (Constant_eq rich) (constants lhs) (constants rhs) = Inr True \<and>
    unordered_map_eq (\<lambda>a b. Inr (Attribute_eq a b)) (attributes lhs) (attributes rhs)
      = Inr True \<and>
    unordered_map_eq (\<lambda>a b. Inr (a = b)) (overloads lhs) (overloads rhs) = Inr True \<and>
    unordered_map_eq (\<lambda>a b. Inr (FunctionAttribute_eq a b))
      (functionAttributes lhs) (functionAttributes rhs) = Inr True \<and>
    length (modules lhs) = length (modules rhs) \<and>
    std_sort (modules lhs) = mpre @ x # mpost \<and>
    std_sort (modules rhs) = mpre' @ y # mpost' \<and>
    list_all2 (\<lambda>p q. ModuleInfo_eq rich p q = Inr True) mpre mpre' \<and>
    meta x = Some t \<and> meta y = Some u \<and> jitType t \<noteq> jitType u \<and>
    data_eq rich (data t) (data u) = Inl e"
  from a have np: "\<not> isPoisoned lhs" "\<not> isPoisoned rhs"
    and cl: "pyClass lhs = pyClass rhs"
    and kd: "iterableModuleKind lhs = iterableModuleKind rhs"
    and cc: "unordered_map_eq (Constant_eq rich) (constants lhs) (constants rhs) = Inr True"
    and aa: "unordered_map_eq (\<lambda>a b. Inr (Attribute_eq a b)) (attributes lhs) (attributes rhs)
      = Inr True"
    and oo: "unordered_map_eq (\<lambda>a b. Inr (a = b)) (overloads lhs) (overloads rhs) = Inr True"
    and ff: "unordered_map_eq (\<lambda>a b. Inr (FunctionAttribute_eq a b))
      (functionAttributes lhs) (functionAttributes rhs) = Inr True"
    and len: "length (modules lhs) = length (modules rhs)"
    and sl: "std_sort (modules lhs) = mpre @ x # mpost"
    and sr: "std_sort (modules rhs) = mpre' @ y # mpost'"
    and pre: "list_all2 (\<lambda>p q. ModuleInfo_eq rich p q = Inr True) mpre mpre'"
    and mx: "meta x = Some t" and my: "meta y = Some u"
    and jt: "jitType t \<noteq> jitType u"
    and dn: "data_eq rich (data t) (data u) = Inl e"
    by blast+
  show eq: "equals rich t u = Inl e"
    using jt dn by (simp add: equals.simps)
  show mi: "ModuleInfo_eq rich x y = Inl e"
    using mx my eq by (simp add: ModuleInfo_eq.simps)
  have "length (std_sort (modules lhs)) = length (std_sort (modules rhs))"
    using len by (simp only: length_std_sort)
  moreover have "std_equal (ModuleInfo_eq rich) (std_sort (modules lhs)) (std_sort (modules rhs))
      = Inl e"
    unfolding sl sr by (rule std_equal_raises [OF pre mi])
  ultimately have v: "vector_eq (ModuleInfo_eq rich) (std_sort (modules lhs))
      (std_sort (modules rhs)) = Inl e"
    by (simp add: vector_eq_def)
  show "data_eq rich lhs rhs = Inl e"
    using np cl kd cc aa oo ff v by (simp add: data_eq.simps)
next
  assume d: "data_eq rich lhs rhs = Inl e"
  then show "RawConcreteModuleType_equals rich lhs rhs = Inl e"
    by (simp add: RawConcreteModuleType_equals_def)
  from d show "RawConcreteModuleType_equals_finalized rich lhs (ConcreteModuleType rhs j) = Inl e"
    by (simp add: RawConcreteModuleType_equals_finalized_def)
  from d show "if j = j'
     then equals rich (ConcreteModuleType lhs j) (ConcreteModuleType rhs j') = Inr True
     else equals rich (ConcreteModuleType lhs j) (ConcreteModuleType rhs j') = Inl e"
    by (simp add: equals.simps)
qed

text \<open>
  The witness: the descriptors of two submodules hold the constant \<open>k\<close> with different
  objects, and the Python comparison raises on different objects. The comparison of the
  two submodule descriptors throws, and so does the comparison of two parents that
  agree on everything else and hold the submodules under the same name.
\<close>

theorem constant_comparison_failure_propagates_witness:
  "data_eq (\<lambda>a b. if a = b then 1 else - 1)
     (addConstant (RawConcreteModuleType 8 :: string RawConcreteModuleType) ''k'' 2)
     (addConstant (RawConcreteModuleType 8) ''k'' 3)
   = Inl error_already_set \<and>
   data_eq (\<lambda>a b. if a = b then 1 else - 1)
     (addModule (addConstant (RawConcreteModuleType 7 :: string RawConcreteModuleType) ''c'' 1) ''sub''
        (Some (ConcreteModuleType (addConstant (RawConcreteModuleType 8) ''k'' 2) 100)))
     (addModule (addConstant (RawConcreteModuleType 7) ''c'' 1) ''sub''
        (Some (ConcreteModuleType (addConstant (RawConcreteModuleType 8) ''k'' 3) 101)))
   = Inl error_already_set \<and>
   equals (\<lambda>a b. if a = b then 1 else - 1)
     (ConcreteModuleType
       (addModule (addConstant (RawConcreteModuleType 7 :: string RawConcreteModuleType) ''c'' 1) ''sub''
          (Some (ConcreteModuleType (addConstant (RawConcreteModuleType 8) ''k'' 2) 100))) 200)
     (ConcreteModuleType
       (addModule (addConstant (RawConcreteModuleType 7) ''c'' 1) ''sub''
          (Some (ConcreteModuleType (addConstant (RawConcreteModuleType 8) ''k'' 3) 101))) 201)
   = Inl error_already_set"
proof -
  let ?rich = "\<lambda>a b :: nat. if a = b then 1 else (- 1 :: int)"
  let ?dx = "addConstant (RawConcreteModuleType 8 :: string RawConcreteModuleType) ''k'' 2"
  let ?dy = "addConstant (RawConcreteModuleType 8 :: string RawConcreteModuleType) ''k'' 3"
  let ?x = "ModuleInfo ''sub'' (Some (ConcreteModuleType ?dx 100)) None"
  let ?y = "ModuleInfo ''sub'' (Some (ConcreteModuleType ?dy 101)) None"
  let ?lhs = "addModule (addConstant (RawConcreteModuleType 7 :: string RawConcreteModuleType) ''c'' 1)
      ''sub'' (Some (ConcreteModuleType ?dx 100))"
  let ?rhs = "addModule (addConstant (RawConcreteModuleType 7 :: string RawConcreteModuleType) ''c'' 1)
      ''sub'' (Some (ConcreteModuleType ?dy 101))"
  have inner: "data_eq ?rich ?dx ?dy = Inl error_already_set"
    using constant_comparison_failure_propagates [where rich = "?rich" and lhs = "?dx"
        and rhs = "?dy" and pre = "[]" and k = "''k''" and v = 2 and post = "[]" and w = 3]
    by (simp add: addConstant_def RawConcreteModuleType_def emplace_def)
  have outer: "data_eq ?rich ?lhs ?rhs = Inl error_already_set"
    using constant_comparison_failure_propagates [where rich = "?rich" and lhs = "?lhs"
        and rhs = "?rhs" and mpre = "[]" and x = "?x" and mpost = "[]"
        and mpre' = "[]" and y = "?y" and mpost' = "[]"
        and t = "ConcreteModuleType ?dx 100" and u = "ConcreteModuleType ?dy 101"
        and e = error_already_set] inner
    by (simp add: addConstant_def addModule_def RawConcreteModuleType_def emplace_def
        unordered_map_eq_def Constant_eq_def)
  have top: "equals ?rich (ConcreteModuleType ?lhs 200) (ConcreteModuleType ?rhs 201)
      = Inl error_already_set"
    using constant_comparison_failure_propagates [where rich = "?rich" and lhs = "?lhs"
        and rhs = "?rhs" and e = error_already_set and j = 200 and j' = 201] outer
    by simp
  show ?thesis by (rule conjI [OF inner conjI [OF outer top]])
qed

text \<open>
  C5. Two function attributes are equal exactly when they hold the same function
  object, whatever their function types. Two descriptors whose function attribute
  under some name holds different function objects compare unequal, as long as the
  comparison of their constants does not raise first.
\<close>

theorem function_attribute_identity:
  "FunctionAttribute_eq (FunctionAttribute ft h) (FunctionAttribute gt h) \<and>
   (h \<noteq> h' \<longrightarrow> \<not> FunctionAttribute_eq (FunctionAttribute ft h) (FunctionAttribute gt h')) \<and>
   (map_of (functionAttributes lhs) k = Some f \<and>
    map_of (functionAttributes rhs) k = Some g \<and>
    pyFunction f \<noteq> pyFunction g \<and>
    unordered_map_eq (Constant_eq rich) (constants lhs) (constants rhs) = Inr b
    \<longrightarrow> data_eq rich lhs rhs = Inr False)"
proof (intro conjI impI)
  show "FunctionAttribute_eq (FunctionAttribute ft h) (FunctionAttribute gt h)"
    by (simp add: FunctionAttribute_eq_def)
  show "\<not> FunctionAttribute_eq (FunctionAttribute ft h) (FunctionAttribute gt h')" if "h \<noteq> h'"
    using that by (simp add: FunctionAttribute_eq_def)
next
  assume a: "map_of (functionAttributes lhs) k = Some f \<and>
    map_of (functionAttributes rhs) k = Some g \<and>
    pyFunction f \<noteq> pyFunction g \<and>
    unordered_map_eq (Constant_eq rich) (constants lhs) (constants rhs) = Inr b"
  from a have "Inr (FunctionAttribute_eq g f) = (Inr False :: error + bool)"
    by (auto simp: FunctionAttribute_eq_def)
  with a have fu: "unordered_map_eq (\<lambda>a b. Inr (FunctionAttribute_eq a b))
      (functionAttributes lhs) (functionAttributes rhs) = Inr False"
    using unordered_map_eq_differs [of "functionAttributes lhs" k f "functionAttributes rhs" g
        "\<lambda>a b. Inr (FunctionAttribute_eq a b)"]
    by simp
  obtain ra where ra: "unordered_map_eq (\<lambda>a b. Inr (Attribute_eq a b)) (attributes lhs) (attributes rhs) = Inr ra"
    using unordered_map_eq_total [of "\<lambda>a b. Inr (Attribute_eq a b)" "attributes lhs" "attributes rhs"]
    by (cases "unordered_map_eq (\<lambda>a b. Inr (Attribute_eq a b)) (attributes lhs) (attributes rhs)") auto
  obtain ro where ro: "unordered_map_eq (\<lambda>a b. Inr (a = b)) (overloads lhs) (overloads rhs) = Inr ro"
    using unordered_map_eq_total [of "\<lambda>a b. Inr (a = b)" "overloads lhs" "overloads rhs"]
    by (cases "unordered_map_eq (\<lambda>a b. Inr (a = b)) (overloads lhs) (overloads rhs)") auto
  from a have rc: "unordered_map_eq (Constant_eq rich) (constants lhs) (constants rhs) = Inr b"
    by simp
  show "data_eq rich lhs rhs = Inr False"
    by (simp add: data_eq.simps fu ra ro rc)
qed

theorem function_attribute_identity_witness:
  "map_of (functionAttributes (ConcreteModuleTypeData False [(''k'', 1)] [] [] []
       [(''f'', FunctionAttribute ''Fn'' 10)] [] NONE 7)) ''f'' = Some (FunctionAttribute ''Fn'' 10) \<and>
   map_of (functionAttributes (ConcreteModuleTypeData False [(''k'', 1)] [] [] []
       [(''f'', FunctionAttribute ''Fn'' 11)] [] NONE 7)) ''f'' = Some (FunctionAttribute ''Fn'' 11) \<and>
   data_eq (\<lambda>a b. if a = b then 1 else 0)
     (ConcreteModuleTypeData False [(''k'', 1)] [] [] [] [(''f'', FunctionAttribute ''Fn'' 10)] [] NONE 7)
     (ConcreteModuleTypeData False [(''k'', 1)] [] [] [] [(''f'', FunctionAttribute ''Fn'' 11)] [] NONE 7)
     = Inr False"
  using function_attribute_identity [of "''Fn''" 10 "''Fn''" 11
      "ConcreteModuleTypeData False [(''k'', 1)] [] [] [] [(''f'', FunctionAttribute ''Fn'' 10)] [] NONE 7"
      "''f''" "FunctionAttribute ''Fn'' 10"
      "ConcreteModuleTypeData False [(''k'', 1)] [] [] [] [(''f'', FunctionAttribute ''Fn'' 11)] [] NONE 7"
      "FunctionAttribute ''Fn'' 11" "\<lambda>a b. if a = b then 1 else 0" True]
  by (simp add: unordered_map_eq_def Constant_eq_def)

text \<open>
  C7, as amended. Two descriptors that are not poisoned and differ only in the order
  of their module entries compare equal, provided the entries have pairwise different
  names, every entry carries a finalized type or an interface type, every table has
  each key once and every constant compares equal to itself. The comparison leaves
  both descriptors, and so the order of their module entries, as they were.
\<close>

theorem submodule_order_independent:
  assumes "unique_keys (ConcreteModuleTypeData False c a ov fa fu ms kind cl)"
    and "\<forall>(k, v) \<in> set c. rich v v = 1"
    and "distinct (map name ms)"
    and "\<forall>m \<in> set ms. meta m \<noteq> None \<or> mod_type m \<noteq> None"
    and "mset ms' = mset ms"
  shows "data_eq rich (ConcreteModuleTypeData False c a ov fa fu ms kind cl)
                      (ConcreteModuleTypeData False c a ov fa fu ms' kind cl) = Inr True \<and>
         equals_step rich (ConcreteModuleTypeData False c a ov fa fu ms kind cl,
                           ConcreteModuleTypeData False c a ov fa fu ms' kind cl)
           = (Inr True, (ConcreteModuleTypeData False c a ov fa fu ms kind cl,
                         ConcreteModuleTypeData False c a ov fa fu ms' kind cl))"
proof -
  from assms(1) have dc: "distinct (map fst c)" and da: "distinct (map fst a)"
    and dov: "distinct (map fst ov)" and dfu: "distinct (map fst fu)"
    by (simp_all add: unique_keys_def)
  have cc: "unordered_map_eq (Constant_eq rich) c c = Inr True"
    using dc assms(2) by (intro unordered_map_eq_refl) (auto simp: Constant_eq_def)
  have aa: "unordered_map_eq (\<lambda>x y. Inr (Attribute_eq x y)) a a = Inr True"
    using da by (intro unordered_map_eq_refl) (auto simp: Attribute_eq_def)
  have oo: "unordered_map_eq (\<lambda>x y. Inr (x = y)) ov ov = Inr True"
    using dov by (intro unordered_map_eq_refl) auto
  have ff: "unordered_map_eq (\<lambda>x y. Inr (FunctionAttribute_eq x y)) fu fu = Inr True"
    using dfu by (intro unordered_map_eq_refl) (auto simp: FunctionAttribute_eq_def)
  have srt: "std_sort ms' = std_sort ms"
    using assms(3,5) by (intro std_sort_permutation)
  have "std_equal (ModuleInfo_eq rich) (std_sort ms) (std_sort ms) = Inr True"
    using assms(4) by (intro std_equal_refl ModuleInfo_eq_refl) simp
  then have vv: "vector_eq (ModuleInfo_eq rich) (std_sort ms) (std_sort ms') = Inr True"
    by (simp add: vector_eq_def srt)
  have "data_eq rich (ConcreteModuleTypeData False c a ov fa fu ms kind cl)
                     (ConcreteModuleTypeData False c a ov fa fu ms' kind cl) = Inr True"
    by (simp add: data_eq.simps cc aa oo ff vv)
  then show ?thesis
    by (simp add: equals_step_def RawConcreteModuleType_equals_def)
qed

theorem submodule_order_independent_witness:
  "data_eq (\<lambda>a b. if a = b then 1 else 0)
     (ConcreteModuleTypeData False [(''k'', 1)] [(''w'', Attribute ''Tensor'' True)] [] [] []
        [ModuleInfo ''a'' (Some (ConcreteModuleType (RawConcreteModuleType 8) 100)) None,
         ModuleInfo ''b'' None (Some ''Iface'')] NONE 7)
     (ConcreteModuleTypeData False [(''k'', 1)] [(''w'', Attribute ''Tensor'' True)] [] [] []
        [ModuleInfo ''b'' None (Some ''Iface''),
         ModuleInfo ''a'' (Some (ConcreteModuleType (RawConcreteModuleType 8) 100)) None] NONE 7)
   = Inr True"
proof -
  have "data_eq (\<lambda>a b. if a = b then 1 else 0)
     (ConcreteModuleTypeData False [(''k'', 1)] [(''w'', Attribute ''Tensor'' True)] [] [] []
        [ModuleInfo ''a'' (Some (ConcreteModuleType (RawConcreteModuleType 8) 100)) None,
         ModuleInfo ''b'' None (Some ''Iface'')] NONE 7)
     (ConcreteModuleTypeData False [(''k'', 1)] [(''w'', Attribute ''Tensor'' True)] [] [] []
        [ModuleInfo ''b'' None (Some ''Iface''),
         ModuleInfo ''a'' (Some (ConcreteModuleType (RawConcreteModuleType 8) 100)) None] NONE 7)
   = Inr True"
    using submodule_order_independent [of "[(''k'', 1)]" "[(''w'', Attribute ''Tensor'' True)]"
        "[]" "[]" "[]"
        "[ModuleInfo ''a'' (Some (ConcreteModuleType (RawConcreteModuleType 8) 100)) None,
          ModuleInfo ''b'' None (Some ''Iface'')]"
        NONE 7 "\<lambda>a b. if a = b then 1 else 0"
        "[ModuleInfo ''b'' None (Some ''Iface''),
          ModuleInfo ''a'' (Some (ConcreteModuleType (RawConcreteModuleType 8) 100)) None]"]
    by (simp add: unique_keys_def)
  then show ?thesis .
qed

text \<open>
  C7, as stated, fails in two ways. A poisoned descriptor is unequal to its reordered
  copy. And the order of entries is only neutralised between entries of different
  names: with two entries named \<open>a\<close> that hold different finalized types, the sorted
  copies keep the two insertion orders and the reordered copy compares unequal.
\<close>

theorem submodule_order_counterexample:
  "mset (modules (addModule (addModule (RawConcreteModuleType 7 :: string RawConcreteModuleType)
       ''a'' (Some (ConcreteModuleType (RawConcreteModuleType 8) 100)))
       ''a'' (Some (ConcreteModuleType (RawConcreteModuleType 9) 101))))
   = mset (modules (addModule (addModule (RawConcreteModuleType 7 :: string RawConcreteModuleType)
       ''a'' (Some (ConcreteModuleType (RawConcreteModuleType 9) 101)))
       ''a'' (Some (ConcreteModuleType (RawConcreteModuleType 8) 100)))) \<and>
   data_eq (\<lambda>a b. if a = b then 1 else 0)
     (addModule (addModule (RawConcreteModuleType 7 :: string RawConcreteModuleType)
       ''a'' (Some (ConcreteModuleType (RawConcreteModuleType 8) 100)))
       ''a'' (Some (ConcreteModuleType (RawConcreteModuleType 9) 101)))
     (addModule (addModule (RawConcreteModuleType 7)
       ''a'' (Some (ConcreteModuleType (RawConcreteModuleType 9) 101)))
       ''a'' (Some (ConcreteModuleType (RawConcreteModuleType 8) 100)))
   = Inr False \<and>
   data_eq (\<lambda>a b. if a = b then 1 else 0)
     (setPoisoned (addModule (addModule (RawConcreteModuleType 7 :: string RawConcreteModuleType)
       ''a'' (Some (ConcreteModuleType (RawConcreteModuleType 8) 100)))
       ''b'' (Some (ConcreteModuleType (RawConcreteModuleType 9) 101))))
     (setPoisoned (addModule (addModule (RawConcreteModuleType 7)
       ''b'' (Some (ConcreteModuleType (RawConcreteModuleType 9) 101)))
       ''a'' (Some (ConcreteModuleType (RawConcreteModuleType 8) 100))))
   = Inr False"
  by (simp add: eq_eval)

text \<open>
  C9. The result of a comparison does not depend on the \<^verbatim>\<open>failedAttributes_\<close> tables of
  the two descriptors: replacing them, or recording one more failed attribute on either
  side, changes nothing. The table is part of the descriptor all the same, and
  \<^verbatim>\<open>findFailedAttribute\<close> reads it.
\<close>

theorem failedAttributes_ignored:
  "data_eq rich (ConcreteModuleTypeData p c a ov fa fu ms k cl)
                (ConcreteModuleTypeData p' c' a' ov' fa' fu' ms' k' cl')
   = data_eq rich (ConcreteModuleTypeData p c a ov fb fu ms k cl)
                  (ConcreteModuleTypeData p' c' a' ov' fb' fu' ms' k' cl') \<and>
   data_eq rich (ConcreteModuleTypeData p c a ov fa fu ms k cl)
                (ConcreteModuleTypeData p c a ov fb fu ms k cl)
   = data_eq rich (ConcreteModuleTypeData p c a ov fa fu ms k cl)
                  (ConcreteModuleTypeData p c a ov fa fu ms k cl) \<and>
   data_eq rich (addFailedAttribute lhs n r) rhs = data_eq rich lhs rhs \<and>
   data_eq rich lhs (addFailedAttribute rhs n r) = data_eq rich lhs rhs \<and>
   findFailedAttribute (ConcreteModuleType (ConcreteModuleTypeData p c a ov fa fu ms k cl) j) n
     = map_of fa n"
  by (simp add: data_eq.simps addFailedAttribute_def findFailedAttribute_def
      cong del: sum.case_cong_weak bool.case_cong_weak)

theorem failedAttributes_ignored_witness:
  "data_eq (\<lambda>a b. if a = b then 1 else 0)
     (addFailedAttribute (addConstant (RawConcreteModuleType 7 :: string RawConcreteModuleType) ''k'' 1)
        ''x'' ''unsupported'')
     (addConstant (RawConcreteModuleType 7) ''k'' 1) = Inr True \<and>
   findFailedAttribute
     (ConcreteModuleType (addFailedAttribute (addConstant (RawConcreteModuleType 7 :: string RawConcreteModuleType) ''k'' 1)
        ''x'' ''unsupported'') 3) ''x'' = Some ''unsupported''"
  using failedAttributes_ignored [of "\<lambda>a b. if a = b then 1 else 0"
      False "[(''k'', 1)]" "[]" "[]" "[(''x'', ''unsupported'')]" "[]" "[]" NONE 7
      False "[(''k'', 1)]" "[]" "[]" "[]" "[]" "[]" NONE 7 "[]" "[]"
      "addConstant (RawConcreteModuleType 7 :: string RawConcreteModuleType) ''k'' 1"
      "''x''" "''unsupported''" "addConstant (RawConcreteModuleType 7) ''k'' 1" 3]
  by (simp add: eq_eval findFailedAttribute_def)

section \<open>Properties of the builder\<close>



text \<open>
  C10. A second write under a name that a table already holds leaves the descriptor as
  it was, for constants, attributes, function attributes, overloads and failed
  attributes; \<^verbatim>\<open>addModule\<close> appends its entry whatever the names already present.
\<close>

theorem first_write_wins:
  "(map_of (constants d) n = Some c \<longrightarrow> addConstant d n v = d) \<and>
   (map_of (attributes d) n = Some a \<and> \<not> is_FunctionType t \<longrightarrow>
      addAttribute is_FunctionType unshapedType d n (Some t) p = Inr d) \<and>
   (map_of (functionAttributes d) n = Some f \<and> is_FunctionType ft \<longrightarrow>
      addFunctionAttribute is_FunctionType d n (Some ft) h = Inr d) \<and>
   (map_of (overloads d) n = Some os \<longrightarrow> addOverload d n ns = d) \<and>
   (map_of (failedAttributes d) n = Some r \<longrightarrow> addFailedAttribute d n r' = d) \<and>
   modules (addModule d n m) = modules d @ [ModuleInfo n m None]"
  by (simp add: addConstant_def addAttribute_def addFunctionAttribute_def addOverload_def
      addFailedAttribute_def addModule_def emplace_present)

theorem first_write_wins_witness:
  "addConstant (ConcreteModuleTypeData False [(''x'', 1)] [(''x'', Attribute ''Tensor'' True)]
       [(''x'', [''x__0''])] [(''x'', ''why'')] [(''x'', FunctionAttribute ''Fn'' 5)]
       [ModuleInfo ''x'' None (Some ''Iface'')] NONE 7) ''x'' 2
     = ConcreteModuleTypeData False [(''x'', 1)] [(''x'', Attribute ''Tensor'' True)]
       [(''x'', [''x__0''])] [(''x'', ''why'')] [(''x'', FunctionAttribute ''Fn'' 5)]
       [ModuleInfo ''x'' None (Some ''Iface'')] NONE 7 \<and>
   addAttribute (\<lambda>t. t = ''Fn'') (\<lambda>t. t)
       (ConcreteModuleTypeData False [(''x'', 1)] [(''x'', Attribute ''Tensor'' True)]
       [(''x'', [''x__0''])] [(''x'', ''why'')] [(''x'', FunctionAttribute ''Fn'' 5)]
       [ModuleInfo ''x'' None (Some ''Iface'')] NONE 7) ''x'' (Some ''int'') False
     = Inr (ConcreteModuleTypeData False [(''x'', 1)] [(''x'', Attribute ''Tensor'' True)]
       [(''x'', [''x__0''])] [(''x'', ''why'')] [(''x'', FunctionAttribute ''Fn'' 5)]
       [ModuleInfo ''x'' None (Some ''Iface'')] NONE 7) \<and>
   addFunctionAttribute (\<lambda>t. t = ''Fn'')
       (ConcreteModuleTypeData False [(''x'', 1)] [(''x'', Attribute ''Tensor'' True)]
       [(''x'', [''x__0''])] [(''x'', ''why'')] [(''x'', FunctionAttribute ''Fn'' 5)]
       [ModuleInfo ''x'' None (Some ''Iface'')] NONE 7) ''x'' (Some ''Fn'') 6
     = Inr (ConcreteModuleTypeData False [(''x'', 1)] [(''x'', Attribute ''Tensor'' True)]
       [(''x'', [''x__0''])] [(''x'', ''why'')] [(''x'', FunctionAttribute ''Fn'' 5)]
       [ModuleInfo ''x'' None (Some ''Iface'')] NONE 7) \<and>
   addOverload (ConcreteModuleTypeData False [(''x'', 1)] [(''x'', Attribute ''Tensor'' True)]
       [(''x'', [''x__0''])] [(''x'', ''why'')] [(''x'', FunctionAttribute ''Fn'' 5)]
       [ModuleInfo ''x'' None (Some ''Iface'')] NONE 7) ''x'' [''x__1'']
     = ConcreteModuleTypeData False [(''x'', 1)] [(''x'', Attribute ''Tensor'' True)]
       [(''x'', [''x__0''])] [(''x'', ''why'')] [(''x'', FunctionAttribute ''Fn'' 5)]
       [ModuleInfo ''x'' None (Some ''Iface'')] NONE 7 \<and>
   addFailedAttribute (ConcreteModuleTypeData False [(''x'', 1)] [(''x'', Attribute ''Tensor'' True)]
       [(''x'', [''x__0''])] [(''x'', ''why'')] [(''x'', FunctionAttribute ''Fn'' 5)]
       [ModuleInfo ''x'' None (Some ''Iface'')] NONE 7) ''x'' ''other''
     = ConcreteModuleTypeData False [(''x'', 1)] [(''x'', Attribute ''Tensor'' True)]
       [(''x'', [''x__0''])] [(''x'', ''why'')] [(''x'', FunctionAttribute ''Fn'' 5)]
       [ModuleInfo ''x'' None (Some ''Iface'')] NONE 7 \<and>
   modules (addModule (ConcreteModuleTypeData False [(''x'', 1)] [(''x'', Attribute ''Tensor'' True)]
       [(''x'', [''x__0''])] [(''x'', ''why'')] [(''x'', FunctionAttribute ''Fn'' 5)]
       [ModuleInfo ''x'' None (Some ''Iface'')] NONE 7) ''x'' None)
     = [ModuleInfo ''x'' None (Some ''Iface''), ModuleInfo ''x'' None None]"
  using first_write_wins [of
      "ConcreteModuleTypeData False [(''x'', 1)] [(''x'', Attribute ''Tensor'' True)]
       [(''x'', [''x__0''])] [(''x'', ''why'')] [(''x'', FunctionAttribute ''Fn'' 5)]
       [ModuleInfo ''x'' None (Some ''Iface'')] NONE 7"
      "''x''" 1 2 "Attribute ''Tensor'' True" "\<lambda>t. t = ''Fn''" "''int''" "\<lambda>t. t" False
      "FunctionAttribute ''Fn'' 5" "''Fn''" 6 "[''x__0'']" "[''x__1'']" "''why''" "''other''" None]
  by simp

section \<open>Properties of \<^verbatim>\<open>build\<close>\<close>

text \<open>
  C8. \<^verbatim>\<open>build\<close> registers the new class type under the resolved name: the canonical name
  of the class, or the name \<^verbatim>\<open>mangle\<close> returns for it when the registry already holds a
  type of the canonical name. When two descriptors of the same canonical name are
  built one after the other, and \<^verbatim>\<open>mangle\<close> returns a name that is not registered (the
  registry's contract), the two finalized types own different class type objects,
  registered under different names, and each name looks up its own class type.
\<close>

theorem build_mangles_on_collision:
  assumes wf: "registered_exist cu0"
    and q1: "canonical_name qualified_name d1 = q"
    and q2: "canonical_name qualified_name d2 = q"
    and b1: "build qualified_name mangle d1 cu0 = (t1, cu1)"
    and b2: "build qualified_name mangle d2 cu1 = (t2, cu2)"
    and fresh0: "get_class cu0 q \<noteq> None \<Longrightarrow> get_class cu0 (mangle cu0 q) = None"
    and fresh1: "get_class cu1 (mangle cu1 q) = None"
  shows "data t1 = d1 \<and> data t2 = d2 \<and>
         class_name (heap cu2 ! jitType t1) = resolved_name qualified_name mangle d1 cu0 \<and>
         class_name (heap cu2 ! jitType t2) = mangle cu1 q \<and>
         get_class cu2 (class_name (heap cu2 ! jitType t1)) = Some (jitType t1) \<and>
         get_class cu2 (class_name (heap cu2 ! jitType t2)) = Some (jitType t2) \<and>
         class_name (heap cu2 ! jitType t1) \<noteq> class_name (heap cu2 ! jitType t2) \<and>
         jitType t1 \<noteq> jitType t2"
proof -
  let ?n1 = "resolved_name qualified_name mangle d1 cu0"
  let ?n2 = "resolved_name qualified_name mangle d2 cu1"
  from b1 have c1: "createTypeFromData qualified_name mangle d1 cu0 = (jitType t1, cu1)"
    and t1: "data t1 = d1"
    by (auto simp: build_def split: prod.splits)
  from b2 have c2: "createTypeFromData qualified_name mangle d2 cu1 = (jitType t2, cu2)"
    and t2: "data t2 = d2"
    by (auto simp: build_def split: prod.splits)
  have wf1: "registered_exist cu1" by (rule registered_exist_after_create [OF c1 wf])
  have a1: "jitType t1 = length (heap cu0)" by (rule createTypeFromData_effect(1) [OF c1])
  have a2: "jitType t2 = length (heap cu1)" by (rule createTypeFromData_effect(1) [OF c2])
  have l1: "length (heap cu1) = Suc (length (heap cu0))" by (rule class_name_after_create(3) [OF c1])
  have free1: "get_class cu0 ?n1 = None"
    using fresh0 q1 by (auto simp: resolved_name_def split: option.splits)
  have reg1: "get_class cu1 ?n1 = Some (jitType t1)"
    using get_class_after_create [OF c1 wf, of ?n1] free1 by simp
  have taken: "get_class cu1 q \<noteq> None"
  proof (cases "get_class cu0 q")
    case None
    then have "?n1 = q" using q1 by (simp add: resolved_name_def)
    with reg1 show ?thesis by simp
  next
    case (Some p)
    then show ?thesis using get_class_after_create [OF c1 wf, of q] by simp
  qed
  then have n2: "?n2 = mangle cu1 q"
    using q2 by (auto simp: resolved_name_def split: option.splits)
  have free2: "get_class cu1 ?n2 = None" using fresh1 n2 by simp
  have ne: "?n1 \<noteq> ?n2" using reg1 free2 by auto
  have reg2: "get_class cu2 ?n2 = Some (jitType t2)"
    using get_class_after_create [OF c2 wf1, of ?n2] free2 by simp
  have reg1': "get_class cu2 ?n1 = Some (jitType t1)"
    using get_class_after_create [OF c2 wf1, of ?n1] reg1 by simp
  have name2: "class_name (heap cu2 ! jitType t2) = ?n2"
    by (rule class_name_after_create(1) [OF c2])
  have "class_name (heap cu2 ! jitType t1) = class_name (heap cu1 ! jitType t1)"
    using class_name_after_create(2) [OF c2, of "jitType t1"] a1 l1 by simp
  also have "\<dots> = ?n1" by (rule class_name_after_create(1) [OF c1])
  finally have name1: "class_name (heap cu2 ! jitType t1) = ?n1" .
  have "jitType t1 \<noteq> jitType t2" using a1 a2 l1 by simp
  with t1 t2 name1 name2 n2 reg1' reg2 ne show ?thesis by simp
qed

theorem build_mangles_on_collision_witness:
  "build (\<lambda>c. QualifiedName [] ''M'')
     (\<lambda>cu q. QualifiedName (qn_prefix q @ [''___torch_mangle_0'']) (qn_name q))
     (addConstant (RawConcreteModuleType 7 :: string RawConcreteModuleType) ''k'' 1)
     \<lparr>heap = [], classes = []\<rparr>
   = (ConcreteModuleType (ConcreteModuleTypeData False [(''k'', 1)] [] [] [] [] [] NONE 7) 0,
      \<lparr>heap = [\<lparr>class_name = QualifiedName [''__torch__''] ''M'', is_module = True,
                 class_attributes = []\<rparr>],
       classes = [0]\<rparr>) \<and>
   build (\<lambda>c. QualifiedName [] ''M'')
     (\<lambda>cu q. QualifiedName (qn_prefix q @ [''___torch_mangle_0'']) (qn_name q))
     (addConstant (RawConcreteModuleType 7 :: string RawConcreteModuleType) ''k'' 2)
     \<lparr>heap = [\<lparr>class_name = QualifiedName [''__torch__''] ''M'', is_module = True,
                class_attributes = []\<rparr>],
      classes = [0]\<rparr>
   = (ConcreteModuleType (ConcreteModuleTypeData False [(''k'', 2)] [] [] [] [] [] NONE 7) 1,
      \<lparr>heap = [\<lparr>class_name = QualifiedName [''__torch__''] ''M'', is_module = True,
                 class_attributes = []\<rparr>,
               \<lparr>class_name = QualifiedName [''__torch__'', ''___torch_mangle_0''] ''M'',
                 is_module = True, class_attributes = []\<rparr>],
       classes = [0, 1]\<rparr>) \<and>
   get_class
     \<lparr>heap = [\<lparr>class_name = QualifiedName [''__torch__''] ''M'', is_module = True,
                class_attributes = [] :: (string \<times> (string + addr) option \<times> bool) list\<rparr>,
              \<lparr>class_name = QualifiedName [''__torch__'', ''___torch_mangle_0''] ''M'',
                is_module = True, class_attributes = []\<rparr>],
      classes = [0, 1]\<rparr>
     (QualifiedName [''__torch__'', ''___torch_mangle_0''] ''M'') = Some 1"
proof -
  let ?qn = "\<lambda>c :: pyobj. QualifiedName [] ''M''"
  let ?mg = "\<lambda>(cu :: string CompilationUnit) q.
      QualifiedName (qn_prefix q @ [''___torch_mangle_0'']) (qn_name q)"
  let ?d1 = "addConstant (RawConcreteModuleType 7 :: string RawConcreteModuleType) ''k'' 1"
  let ?d2 = "addConstant (RawConcreteModuleType 7 :: string RawConcreteModuleType) ''k'' 2"
  let ?cu0 = "\<lparr>heap = [], classes = []\<rparr> :: string CompilationUnit"
  let ?cu1 = "\<lparr>heap = [\<lparr>class_name = QualifiedName [''__torch__''] ''M'', is_module = True,
                 class_attributes = []\<rparr>],
       classes = [0]\<rparr> :: string CompilationUnit"
  let ?cu2 = "\<lparr>heap = [\<lparr>class_name = QualifiedName [''__torch__''] ''M'', is_module = True,
                 class_attributes = []\<rparr>,
               \<lparr>class_name = QualifiedName [''__torch__'', ''___torch_mangle_0''] ''M'',
                 is_module = True, class_attributes = []\<rparr>],
       classes = [0, 1]\<rparr> :: string CompilationUnit"
  let ?t1 = "ConcreteModuleType (ConcreteModuleTypeData False [(''k'', 1)] [] [] [] [] [] NONE 7) 0
      :: string ConcreteModuleType"
  let ?t2 = "ConcreteModuleType (ConcreteModuleTypeData False [(''k'', 2)] [] [] [] [] [] NONE 7) 1
      :: string ConcreteModuleType"
  have wf: "registered_exist ?cu0" by (simp add: registered_exist_def)
  have q1: "canonical_name ?qn ?d1 = QualifiedName [''__torch__''] ''M''"
    by (simp add: canonical_name_def)
  have q2: "canonical_name ?qn ?d2 = QualifiedName [''__torch__''] ''M''"
    by (simp add: canonical_name_def)
  have b1: "build ?qn ?mg ?d1 ?cu0 = (?t1, ?cu1)"
    by (simp add: build_eval addConstant_def RawConcreteModuleType_def emplace_def)
  have b2: "build ?qn ?mg ?d2 ?cu1 = (?t2, ?cu2)"
    by (simp add: build_eval addConstant_def RawConcreteModuleType_def emplace_def)
  have f0: "get_class ?cu0 (?mg ?cu0 (QualifiedName [''__torch__''] ''M'')) = None"
    by (simp add: get_class_def)
  have f1: "get_class ?cu1 (?mg ?cu1 (QualifiedName [''__torch__''] ''M'')) = None"
    by (simp add: get_class_def)
  from build_mangles_on_collision [OF wf q1 q2 b1 b2 f0 f1]
  have "get_class ?cu2 (class_name (heap ?cu2 ! jitType ?t2)) = Some (jitType ?t2)"
    by (elim conjE)
  then have r: "get_class ?cu2 (QualifiedName [''__torch__'', ''___torch_mangle_0''] ''M'') = Some 1"
    by simp
  show ?thesis by (rule conjI [OF b1 conjI [OF b2 r]])
qed

end
